theory Spec2Isabelle
  imports Main
begin

section \<open>The search1api tool server: \<^verbatim>\<open>server.py\<close>\<close>

text \<open>
  The server offers three tools (search, news, crawl) and forwards each invocation to one
  upstream HTTP API. This theory embeds the two handlers of \<^verbatim>\<open>server.py\<close>,
  \<^verbatim>\<open>handle_list_tools\<close> and \<^verbatim>\<open>handle_call_tool\<close>, together with
  \<^verbatim>\<open>make_search_request\<close>, and proves what the specification says about them.

  The handlers are coroutines, but none of them shares data with another invocation; an
  invocation is modelled as a function of its inputs and of the answer the upstream API
  gives to its one HTTP call.
\<close>

subsection \<open>Python values\<close>

text \<open>
  The values the handlers touch are decoded JSON documents: the arguments of a tool call,
  the body of the upstream response, and the input schemas of the catalogue.
  \<^item> \<open>JInt\<close> is Python's unbounded \<^verbatim>\<open>int\<close>.
  \<^item> \<open>JFloat r\<close> is a Python \<^verbatim>\<open>float\<close>, stood for by the text \<open>r\<close> that
    \<^verbatim>\<open>float.__repr__\<close> prints for it (\<^verbatim>\<open>0.0\<close>, \<^verbatim>\<open>-0.0\<close>, \<^verbatim>\<open>1.5\<close>,
    \<^verbatim>\<open>nan\<close>, \<^verbatim>\<open>inf\<close>): the program never computes with a float, it only tests
    one for zero and prints it.
  \<^item> \<open>JStr\<close> is a \<^verbatim>\<open>str\<close>; each \<open>char\<close> stands for one code point, so the model
    covers the code points below 256.
  \<^item> \<open>JObj\<close> is a \<^verbatim>\<open>dict\<close> with \<^verbatim>\<open>str\<close> keys, as the list of its items in
    insertion order.
\<close>

datatype json =
    JNull
  | JBool bool
  | JInt int
  | JFloat string
  | JStr string
  | JList "json list"
  | JObj "(string \<times> json) list"

type_synonym py_dict = "(string \<times> json) list"

text \<open>The exceptions that can leave \<^verbatim>\<open>handle_call_tool\<close>.\<close>

datatype py_exception =
    KeyError string
  | TypeError
  | ValueError string

text \<open>
  Truth value testing, Python's \<^verbatim>\<open>bool(x)\<close>: \<^verbatim>\<open>None\<close>, \<^verbatim>\<open>False\<close>, zero of
  either numeric type, and the empty string, list and dict are false.
\<close>

fun truthy :: "json \<Rightarrow> bool" where
  "truthy JNull = False"
| "truthy (JBool b) = b"
| "truthy (JInt i) = (i \<noteq> 0)"
| "truthy (JFloat r) = (r \<noteq> ''0.0'' \<and> r \<noteq> ''-0.0'')"
| "truthy (JStr s) = (s \<noteq> [])"
| "truthy (JList xs) = (xs \<noteq> [])"
| "truthy (JObj kvs) = (kvs \<noteq> [])"

text \<open>
  Subscription with a string key, \<^verbatim>\<open>x["k"]\<close>: a dict without the key raises
  \<^verbatim>\<open>KeyError\<close>; a list or a string indexed by a string, and every value that is not
  subscriptable, raises \<^verbatim>\<open>TypeError\<close>.
\<close>

fun subscript :: "json \<Rightarrow> string \<Rightarrow> py_exception + json" where
  "subscript (JObj kvs) k = (case map_of kvs k of None \<Rightarrow> Inl (KeyError k) | Some v \<Rightarrow> Inr v)"
| "subscript _ k = Inl TypeError"

text \<open>\<^verbatim>\<open>arguments.get(k, dflt)\<close> on the mapping of arguments.\<close>

definition dict_get :: "(string \<rightharpoonup> json) \<Rightarrow> string \<Rightarrow> json \<Rightarrow> json" where
  "dict_get d k dflt = (case d k of None \<Rightarrow> dflt | Some v \<Rightarrow> v)"

subsection \<open>\<^verbatim>\<open>json.dumps\<close>\<close>

text \<open>
  The standard library's \<^verbatim>\<open>json.dumps\<close> with its default options, which is how the
  handler calls it: items separated by a comma and a space, keys by a colon and a space,
  and (\<^verbatim>\<open>ensure_ascii\<close>) every character outside the printable ASCII range escaped.
\<close>

definition hex_digit :: "nat \<Rightarrow> char" where
  "hex_digit n = ''0123456789abcdef'' ! (n mod 16)"

fun show_nat :: "nat \<Rightarrow> string" where
  "show_nat n = (if n < 10 then [hex_digit n] else show_nat (n div 10) @ [hex_digit (n mod 10)])"

declare show_nat.simps [simp del]

definition show_int :: "int \<Rightarrow> string" where
  "show_int i = (if i < 0 then CHR ''-'' # show_nat (nat (- i)) else show_nat (nat i))"

definition escape_char :: "char \<Rightarrow> string" where
  "escape_char c =
     (if c = CHR 0x5C then [CHR 0x5C, CHR 0x5C]
      else if c = CHR 0x22 then [CHR 0x5C, CHR 0x22]
      else if c = CHR 0x08 then [CHR 0x5C, CHR ''b'']
      else if c = CHR 0x0C then [CHR 0x5C, CHR ''f'']
      else if c = CHR 0x0A then [CHR 0x5C, CHR ''n'']
      else if c = CHR 0x0D then [CHR 0x5C, CHR ''r'']
      else if c = CHR 0x09 then [CHR 0x5C, CHR ''t'']
      else if 0x20 \<le> (of_char c :: nat) \<and> (of_char c :: nat) \<le> 0x7E then [c]
      else [CHR 0x5C, CHR ''u'', CHR ''0'', CHR ''0'',
            hex_digit (of_char c div 16), hex_digit (of_char c mod 16)])"

definition encode_basestring_ascii :: "string \<Rightarrow> string" where
  "encode_basestring_ascii s = CHR 0x22 # concat (map escape_char s) @ [CHR 0x22]"

definition floatstr :: "string \<Rightarrow> string" where
  "floatstr r =
     (if r = ''nan'' then ''NaN''
      else if r = ''inf'' then ''Infinity''
      else if r = ''-inf'' then ''-Infinity''
      else r)"

fun join :: "string \<Rightarrow> string list \<Rightarrow> string" where
  "join sep [] = []"
| "join sep [x] = x"
| "join sep (x # y # ys) = x @ sep @ join sep (y # ys)"

fun json_dumps :: "json \<Rightarrow> string" where
  "json_dumps JNull = ''null''"
| "json_dumps (JBool b) = (if b then ''true'' else ''false'')"
| "json_dumps (JInt i) = show_int i"
| "json_dumps (JFloat r) = floatstr r"
| "json_dumps (JStr s) = encode_basestring_ascii s"
| "json_dumps (JList xs) = ''['' @ join '', '' (map json_dumps xs) @ '']''"
| "json_dumps (JObj kvs) =
     ''{'' @ join '', '' (map (\<lambda>(k, v). encode_basestring_ascii k @ '': '' @ json_dumps v) kvs)
       @ ''}''"

subsection \<open>The tool catalogue\<close>

text \<open>
  \<^verbatim>\<open>types.Tool(name=..., description=..., inputSchema=...)\<close>. The fields carry the prefix
  \<open>tool_\<close> because \<open>name\<close> is also the parameter of \<^verbatim>\<open>handle_call_tool\<close>. The
  input schema is the dict literal of the source.
\<close>

record Tool =
  tool_name :: string
  tool_description :: string
  tool_inputSchema :: json

definition handle_list_tools :: "Tool list" where
  "handle_list_tools =
     [ \<lparr> tool_name = ''search'',
         tool_description = ''A fast way to search the world'',
         tool_inputSchema = JObj
           [ (''type'', JStr ''object''),
             (''properties'', JObj
               [ (''query'', JObj
                   [ (''type'', JStr ''string''),
                     (''description'', JStr ''Search query'') ]),
                 (''max_results'', JObj
                   [ (''type'', JStr ''number''),
                     (''description'', JStr ''Maximum number of results to return (default: 10)''),
                     (''default'', JInt 10),
                     (''minimum'', JInt 1),
                     (''maximum'', JInt 50) ]),
                 (''search_service'', JObj
                   [ (''type'', JStr ''string''),
                     (''description'', JStr ''Search service to use (default: google)''),
                     (''default'', JStr ''google'') ]) ]),
             (''required'', JList [JStr ''query'']) ] \<rparr>,
       \<lparr> tool_name = ''news'',
         tool_description = ''Search for news articles'',
         tool_inputSchema = JObj
           [ (''type'', JStr ''object''),
             (''properties'', JObj
               [ (''query'', JObj
                   [ (''type'', JStr ''string''),
                     (''description'', JStr ''News search query'') ]),
                 (''max_results'', JObj
                   [ (''type'', JStr ''number''),
                     (''description'', JStr ''Maximum number of results to return (default: 10)''),
                     (''default'', JInt 10),
                     (''minimum'', JInt 1),
                     (''maximum'', JInt 50) ]),
                 (''search_service'', JObj
                   [ (''type'', JStr ''string''),
                     (''description'', JStr ''Search service to use (default: google)''),
                     (''default'', JStr ''google'') ]) ]),
             (''required'', JList [JStr ''query'']) ] \<rparr>,
       \<lparr> tool_name = ''crawl'',
         tool_description = ''Extract content from URL'',
         tool_inputSchema = JObj
           [ (''type'', JStr ''object''),
             (''properties'', JObj
               [ (''url'', JObj
                   [ (''type'', JStr ''string''),
                     (''description'', JStr ''URL to crawl'') ]) ]),
             (''required'', JList [JStr ''url'']) ] \<rparr> ]"

text \<open>
  The required-field list of a descriptor, read off its schema: the strings under the
  key \<^verbatim>\<open>required\<close>.
\<close>

fun str_items :: "json list \<Rightarrow> string list" where
  "str_items [] = []"
| "str_items (JStr s # xs) = s # str_items xs"
| "str_items (_ # xs) = str_items xs"

definition required_fields :: "Tool \<Rightarrow> string list" where
  "required_fields t =
     (case subscript (tool_inputSchema t) ''required'' of
        Inr (JList xs) \<Rightarrow> str_items xs
      | _ \<Rightarrow> [])"

text \<open>The required fields the catalogue declares for a tool name.\<close>

definition required_of :: "string \<Rightarrow> string list" where
  "required_of name = concat (map required_fields (filter (\<lambda>t. tool_name t = name) handle_list_tools))"

subsection \<open>The upstream call\<close>

text \<open>
  One call \<^verbatim>\<open>client.post(url, headers=..., json=..., timeout=30.0)\<close>, as the record of
  its arguments.
\<close>

record post_call =
  post_url :: string
  post_headers :: "(string \<times> string) list"
  post_json :: py_dict
  post_timeout :: json

text \<open>
  What the call does is the environment's choice. Either \<^verbatim>\<open>client.post\<close> raises (a
  timeout, a network failure, or any other exception derived from \<^verbatim>\<open>Exception\<close>), or
  it returns a response with a status code and a body. The body is \<open>Some v\<close> when
  \<^verbatim>\<open>response.json()\<close> decodes it to \<open>v\<close> and \<open>None\<close> when decoding raises.
\<close>

datatype httpx_exception = TimeoutException | NetworkError | OtherException

record Response =
  status_code :: nat
  body :: "json option"

datatype post_outcome = PostRaises httpx_exception | PostReturns Response

type_synonym AsyncClient = "post_call \<Rightarrow> post_outcome"

text \<open>
  \<^verbatim>\<open>response.raise_for_status()\<close> of httpx raises unless \<^verbatim>\<open>response.is_success\<close>,
  which is a status code from 200 to 299.
\<close>

definition is_success :: "Response \<Rightarrow> bool" where
  "is_success response = (200 \<le> status_code response \<and> status_code response \<le> 299)"

definition API_BASE :: string where
  "API_BASE = ''api.search1api.com''"

text \<open>
  \<^verbatim>\<open>API_KEY = os.getenv("SEARCH1API_KEY")\<close> is \<^verbatim>\<open>None\<close> when the variable is not
  set; an f-string prints \<^verbatim>\<open>None\<close> as the text \<^verbatim>\<open>None\<close>.
\<close>

definition str_of_key :: "string option \<Rightarrow> string" where
  "str_of_key k = (case k of None \<Rightarrow> ''None'' | Some s \<Rightarrow> s)"

text \<open>
  \<^verbatim>\<open>make_search_request\<close> returns the decoded body, or \<^verbatim>\<open>None\<close> (here \<open>JNull\<close>)
  when anything in the \<^verbatim>\<open>try\<close> block raises: the call itself, the status check, or
  the decoding. The second component is the list of calls it issued. The line it prints in
  the \<^verbatim>\<open>except\<close> branch is not part of the model.
\<close>

definition make_search_request ::
    "string option \<Rightarrow> AsyncClient \<Rightarrow> string \<Rightarrow> py_dict \<Rightarrow> json \<times> post_call list" where
  "make_search_request API_KEY client endpoint data =
     (let headers = [(''Authorization'', ''Bearer '' @ str_of_key API_KEY),
                     (''Content-Type'', ''application/json'')];
          call = \<lparr> post_url = ''https://'' @ API_BASE @ endpoint,
                   post_headers = headers,
                   post_json = data,
                   post_timeout = JFloat ''30.0'' \<rparr>
      in (case client call of
            PostRaises e \<Rightarrow> JNull
          | PostReturns response \<Rightarrow>
              if is_success response
              then (case body response of None \<Rightarrow> JNull | Some v \<Rightarrow> v)
              else JNull,
          [call]))"

subsection \<open>\<^verbatim>\<open>handle_call_tool\<close>\<close>

text \<open>
  \<^verbatim>\<open>types.TextContent(type="text", text=...)\<close>; the field names carry the prefix
  \<open>content_\<close>.
\<close>

record TextContent =
  content_type :: string
  content_text :: string

definition text_result :: "string \<Rightarrow> TextContent list" where
  "text_result t = [\<lparr> content_type = ''text'', content_text = t \<rparr>]"

text \<open>
  An invocation either returns a list of content items (\<open>Inr\<close>) or raises (\<open>Inl\<close>);
  \<open>posts\<close> lists the upstream calls it issued, in order.
\<close>

record call_result =
  returned :: "py_exception + TextContent list"
  posts :: "post_call list"

definition handle_call_tool ::
    "string option \<Rightarrow> AsyncClient \<Rightarrow> string \<Rightarrow> (string \<rightharpoonup> json) option \<Rightarrow> call_result" where
  "handle_call_tool API_KEY client name arguments =
     (case arguments of
        None \<Rightarrow> \<lparr> returned = Inr (text_result ''No arguments provided''), posts = [] \<rparr>
      | Some args \<Rightarrow>
          if name = ''search'' then
            (case args ''query'' of
               None \<Rightarrow> \<lparr> returned = Inr (text_result ''Search query is required''), posts = [] \<rparr>
             | Some query \<Rightarrow>
                 let request_data =
                       [ (''query'', query),
                         (''max_results'', dict_get args ''max_results'' (JInt 10)),
                         (''search_service'', dict_get args ''search_service'' (JStr ''google'')) ];
                     (search_data, sent) = make_search_request API_KEY client ''/search'' request_data
                 in if \<not> truthy search_data
                    then \<lparr> returned = Inr (text_result ''Failed to retrieve search results''),
                           posts = sent \<rparr>
                    else (case subscript search_data ''results'' of
                            Inl e \<Rightarrow> \<lparr> returned = Inl e, posts = sent \<rparr>
                          | Inr results \<Rightarrow>
                              \<lparr> returned = Inr (text_result (json_dumps results)), posts = sent \<rparr>))
          else if name = ''news'' then
            (case args ''query'' of
               None \<Rightarrow> \<lparr> returned = Inr (text_result ''News search query is required''), posts = [] \<rparr>
             | Some query \<Rightarrow>
                 let request_data =
                       [ (''query'', query),
                         (''max_results'', dict_get args ''max_results'' (JInt 10)),
                         (''search_service'', dict_get args ''search_service'' (JStr ''google'')) ];
                     (news_data, sent) = make_search_request API_KEY client ''/news'' request_data
                 in if \<not> truthy news_data
                    then \<lparr> returned = Inr (text_result ''Failed to retrieve news results''),
                           posts = sent \<rparr>
                    else (case subscript news_data ''results'' of
                            Inl e \<Rightarrow> \<lparr> returned = Inl e, posts = sent \<rparr>
                          | Inr results \<Rightarrow>
                              \<lparr> returned = Inr (text_result (json_dumps results)), posts = sent \<rparr>))
          else if name = ''crawl'' then
            (case args ''url'' of
               None \<Rightarrow> \<lparr> returned = Inr (text_result ''URL is required''), posts = [] \<rparr>
             | Some url \<Rightarrow>
                 let request_data = [(''url'', url)];
                     (crawl_data, sent) = make_search_request API_KEY client ''/crawl'' request_data
                 in if \<not> truthy crawl_data
                    then \<lparr> returned = Inr (text_result ''Failed to crawl URL''), posts = sent \<rparr>
                    else (case subscript crawl_data ''results'' of
                            Inl e \<Rightarrow> \<lparr> returned = Inl e, posts = sent \<rparr>
                          | Inr results \<Rightarrow>
                              \<lparr> returned = Inr (text_result (json_dumps results)), posts = sent \<rparr>))
          else if name = ''sitemap'' then
            (case args ''url'' of
               None \<Rightarrow> \<lparr> returned = Inr (text_result ''URL is required''), posts = [] \<rparr>
             | Some url \<Rightarrow>
                 let request_data = [(''url'', url)];
                     (sitemap_data, sent) = make_search_request API_KEY client ''/sitemap'' request_data
                 in if \<not> truthy sitemap_data
                    then \<lparr> returned = Inr (text_result ''Failed to retrieve sitemap''), posts = sent \<rparr>
                    else (case subscript sitemap_data ''links'' of
                            Inl e \<Rightarrow> \<lparr> returned = Inl e, posts = sent \<rparr>
                          | Inr links \<Rightarrow>
                              \<lparr> returned = Inr (text_result (json_dumps links)), posts = sent \<rparr>))
          else \<lparr> returned = Inl (ValueError (''Unknown tool: '' @ name)), posts = [] \<rparr>)"

text \<open>
  The call that \<^verbatim>\<open>make_search_request\<close> issues for an endpoint and a body, named so
  that the statements below can speak about it.
\<close>

definition upstream_call :: "string option \<Rightarrow> string \<Rightarrow> py_dict \<Rightarrow> post_call" where
  "upstream_call API_KEY endpoint data =
     \<lparr> post_url = ''https://'' @ API_BASE @ endpoint,
       post_headers = [(''Authorization'', ''Bearer '' @ str_of_key API_KEY),
                       (''Content-Type'', ''application/json'')],
       post_json = data,
       post_timeout = JFloat ''30.0'' \<rparr>"

section \<open>Properties\<close>

subsection \<open>Auxiliary facts\<close>

lemma required_of_known:
  "required_of ''search'' = [''query'']"
  "required_of ''news'' = [''query'']"
  "required_of ''crawl'' = [''url'']"
  by (simp_all add: required_of_def handle_list_tools_def required_fields_def)

text \<open>\<^verbatim>\<open>make_search_request\<close> issues exactly one call, whatever the answer.\<close>

lemma make_search_request_eq:
  "make_search_request API_KEY client endpoint data =
     (case client (upstream_call API_KEY endpoint data) of
        PostRaises e \<Rightarrow> JNull
      | PostReturns response \<Rightarrow>
          if is_success response then (case body response of None \<Rightarrow> JNull | Some v \<Rightarrow> v)
          else JNull,
      [upstream_call API_KEY endpoint data])"
  by (simp add: make_search_request_def upstream_call_def Let_def)

lemma make_search_request_posts:
  "snd (make_search_request API_KEY client endpoint data) = [upstream_call API_KEY endpoint data]"
  by (simp add: make_search_request_eq)

text \<open>The branch of each tool once its required field is present.\<close>

lemma search_unfold:
  "args ''query'' = Some q \<Longrightarrow>
   handle_call_tool API_KEY client ''search'' (Some args) =
     (let r = make_search_request API_KEY client ''/search''
                [ (''query'', q),
                  (''max_results'', dict_get args ''max_results'' (JInt 10)),
                  (''search_service'', dict_get args ''search_service'' (JStr ''google'')) ]
      in \<lparr> returned =
             (if \<not> truthy (fst r) then Inr (text_result ''Failed to retrieve search results'')
              else (case subscript (fst r) ''results'' of
                      Inl e \<Rightarrow> Inl e
                    | Inr results \<Rightarrow> Inr (text_result (json_dumps results)))),
           posts = snd r \<rparr>)"
  by (simp add: handle_call_tool_def Let_def split: prod.splits sum.splits)

lemma news_unfold:
  "args ''query'' = Some q \<Longrightarrow>
   handle_call_tool API_KEY client ''news'' (Some args) =
     (let r = make_search_request API_KEY client ''/news''
                [ (''query'', q),
                  (''max_results'', dict_get args ''max_results'' (JInt 10)),
                  (''search_service'', dict_get args ''search_service'' (JStr ''google'')) ]
      in \<lparr> returned =
             (if \<not> truthy (fst r) then Inr (text_result ''Failed to retrieve news results'')
              else (case subscript (fst r) ''results'' of
                      Inl e \<Rightarrow> Inl e
                    | Inr results \<Rightarrow> Inr (text_result (json_dumps results)))),
           posts = snd r \<rparr>)"
  by (simp add: handle_call_tool_def Let_def split: prod.splits sum.splits)

lemma crawl_unfold:
  "args ''url'' = Some u \<Longrightarrow>
   handle_call_tool API_KEY client ''crawl'' (Some args) =
     (let r = make_search_request API_KEY client ''/crawl'' [(''url'', u)]
      in \<lparr> returned =
             (if \<not> truthy (fst r) then Inr (text_result ''Failed to crawl URL'')
              else (case subscript (fst r) ''results'' of
                      Inl e \<Rightarrow> Inl e
                    | Inr results \<Rightarrow> Inr (text_result (json_dumps results)))),
           posts = snd r \<rparr>)"
  by (simp add: handle_call_tool_def Let_def split: prod.splits sum.splits)

text \<open>
  When the call raises, the status is not a success, the body does not decode, or it decodes
  to a false value, the value that \<^verbatim>\<open>make_search_request\<close> hands back is false.
\<close>

lemma failed_call_is_falsy:
  assumes "case client (upstream_call API_KEY endpoint data) of
             PostRaises e \<Rightarrow> True
           | PostReturns r \<Rightarrow>
               \<not> is_success r \<or> (case body r of None \<Rightarrow> True | Some v \<Rightarrow> \<not> truthy v)"
  shows "\<not> truthy (fst (make_search_request API_KEY client endpoint data))"
  using assms by (auto simp: make_search_request_eq split: post_outcome.splits option.splits)

text \<open>The serialisation of a small list, as Python prints it.\<close>

lemma json_dumps_example:
  \<open>json_dumps (JList [JStr ''a'', JStr ''b'']) = ''["a", "b"]''\<close>
  by (simp add: encode_basestring_ascii_def escape_char_def)

subsection \<open>Upstream failures\<close>

text \<open>
  Claim C1, as the code has it. For each of the tools search, news and crawl, called with
  its required field present: if the upstream call raises (a transport error), or returns
  a status outside 200..299, or returns a body that does not decode as JSON, or returns a
  success whose body decodes to a false value (such as the empty object, which lacks the
  key \<^verbatim>\<open>results\<close>), then \<^verbatim>\<open>handle_call_tool\<close> returns the generic failure text of
  the tool and raises nothing.
\<close>

theorem upstream_failure_reported:
  assumes up: "\<And>call. case client call of
                  PostRaises e \<Rightarrow> True
                | PostReturns r \<Rightarrow>
                    \<not> is_success r \<or> (case body r of None \<Rightarrow> True | Some v \<Rightarrow> \<not> truthy v)"
  shows "(''query'' \<in> dom args \<longrightarrow>
            returned (handle_call_tool API_KEY client ''search'' (Some args)) =
              Inr (text_result ''Failed to retrieve search results'') \<and>
            returned (handle_call_tool API_KEY client ''news'' (Some args)) =
              Inr (text_result ''Failed to retrieve news results'')) \<and>
         (''url'' \<in> dom args \<longrightarrow>
            returned (handle_call_tool API_KEY client ''crawl'' (Some args)) =
              Inr (text_result ''Failed to crawl URL''))"
proof -
  have falsy: "\<not> truthy (fst (make_search_request API_KEY client endpoint data))"
    for endpoint data
    by (rule failed_call_is_falsy) (rule up)
  show ?thesis
    by (auto simp: search_unfold news_unfold crawl_unfold Let_def falsy)
qed

text \<open>The theorem at a provider that answers 503 with a body that is not JSON.\<close>

theorem upstream_failure_reported_witness:
  "returned (handle_call_tool None (\<lambda>call. PostReturns \<lparr> status_code = 503, body = None \<rparr>)
      ''search'' (Some [''query'' \<mapsto> JStr ''q'', ''url'' \<mapsto> JStr ''http://x''])) =
     Inr (text_result ''Failed to retrieve search results'') \<and>
   returned (handle_call_tool None (\<lambda>call. PostReturns \<lparr> status_code = 503, body = None \<rparr>)
      ''news'' (Some [''query'' \<mapsto> JStr ''q'', ''url'' \<mapsto> JStr ''http://x''])) =
     Inr (text_result ''Failed to retrieve news results'') \<and>
   returned (handle_call_tool None (\<lambda>call. PostReturns \<lparr> status_code = 503, body = None \<rparr>)
      ''crawl'' (Some [''query'' \<mapsto> JStr ''q'', ''url'' \<mapsto> JStr ''http://x''])) =
     Inr (text_result ''Failed to crawl URL'')"
  using upstream_failure_reported
          [of "\<lambda>call. PostReturns \<lparr> status_code = 503, body = None \<rparr>"
              "[''query'' \<mapsto> JStr ''q'', ''url'' \<mapsto> JStr ''http://x'']" None]
  by (simp add: is_success_def)

text \<open>
  The claim as the specification words it also covers a success whose body is a JSON
  object without the key \<^verbatim>\<open>results\<close>. There the handler passes the truth test and
  then subscripts the body: for the body \<^verbatim>\<open>{"error": "quota exceeded"}\<close> the call
  \<^verbatim>\<open>search_data["results"]\<close> raises \<^verbatim>\<open>KeyError\<close>, which leaves the handler.
\<close>

theorem missing_results_key_raises:
  "returned (handle_call_tool None
      (\<lambda>call. PostReturns \<lparr> status_code = 200,
                             body = Some (JObj [(''error'', JStr ''quota exceeded'')]) \<rparr>)
      ''search'' (Some [''query'' \<mapsto> JStr ''q''])) = Inl (KeyError ''results'')"
  by (simp add: search_unfold make_search_request_eq is_success_def Let_def)

text \<open>
  Claim C4. For the tool news called with a mapping that holds \<^verbatim>\<open>query\<close>: when the
  upstream call times out or returns a status outside 200..299, the handler returns the
  text \<^verbatim>\<open>Failed to retrieve news results\<close>; the result is a returned value (\<open>Inr\<close>),
  so nothing is raised.
\<close>

theorem news_timeout_or_bad_status:
  assumes "''query'' \<in> dom m"
    and up: "\<And>call. case client call of
                 PostRaises e \<Rightarrow> e = TimeoutException
               | PostReturns r \<Rightarrow> \<not> is_success r"
  shows "returned (handle_call_tool API_KEY client ''news'' (Some m)) =
           Inr (text_result ''Failed to retrieve news results'')"
proof -
  from assms(1) obtain q where q: "m ''query'' = Some q"
    by auto
  have "\<not> truthy (fst (make_search_request API_KEY client endpoint data))" for endpoint data
    using up [of "upstream_call API_KEY endpoint data"]
    by (intro failed_call_is_falsy) (simp split: post_outcome.splits)
  with q show ?thesis
    by (simp add: news_unfold Let_def)
qed

text \<open>
  The theorem at a provider that times out, and at one that answers 404 (even with a
  well-formed body).
\<close>

theorem news_timeout_or_bad_status_witness:
  "returned (handle_call_tool (Some ''k'') (\<lambda>call. PostRaises TimeoutException) ''news''
              (Some [''query'' \<mapsto> JStr ''q''])) =
     Inr (text_result ''Failed to retrieve news results'') \<and>
   returned (handle_call_tool (Some ''k'')
              (\<lambda>call. PostReturns \<lparr> status_code = 404, body = Some (JObj [(''results'', JList [])]) \<rparr>)
              ''news'' (Some [''query'' \<mapsto> JStr ''q''])) =
     Inr (text_result ''Failed to retrieve news results'')"
  using news_timeout_or_bad_status
          [of "[''query'' \<mapsto> JStr ''q'']" "\<lambda>call. PostRaises TimeoutException" "Some ''k''"]
        news_timeout_or_bad_status
          [of "[''query'' \<mapsto> JStr ''q'']"
              "\<lambda>call. PostReturns \<lparr> status_code = 404, body = Some (JObj [(''results'', JList [])]) \<rparr>"
              "Some ''k''"]
  by (simp add: is_success_def)

text \<open>
  Claim C9. For each of the tools search, news and crawl, called with its required field
  present: when the upstream answers with a success status and a body that decodes to a
  false value (the empty object, \<^verbatim>\<open>null\<close>, \<^verbatim>\<open>false\<close>, \<^verbatim>\<open>0\<close>), the handler returns
  the generic failure text of the tool. The truth value of the decoded body decides, not
  the status alone.
\<close>

theorem falsy_body_is_failure:
  assumes up: "\<And>call. \<exists>r v. client call = PostReturns r \<and> is_success r \<and>
                  body r = Some v \<and> \<not> truthy v"
  shows "(''query'' \<in> dom args \<longrightarrow>
            returned (handle_call_tool API_KEY client ''search'' (Some args)) =
              Inr (text_result ''Failed to retrieve search results'') \<and>
            returned (handle_call_tool API_KEY client ''news'' (Some args)) =
              Inr (text_result ''Failed to retrieve news results'')) \<and>
         (''url'' \<in> dom args \<longrightarrow>
            returned (handle_call_tool API_KEY client ''crawl'' (Some args)) =
              Inr (text_result ''Failed to crawl URL''))"
proof -
  have falsy: "\<not> truthy (fst (make_search_request API_KEY client endpoint data))"
    for endpoint data
    using up [of "upstream_call API_KEY endpoint data"]
    by (auto simp: make_search_request_eq)
  show ?thesis
    by (auto simp: search_unfold news_unfold crawl_unfold Let_def falsy)
qed

text \<open>
  The four false bodies the claim lists, and the theorem at a provider that answers 200
  with the empty object.
\<close>

theorem falsy_body_is_failure_witness:
  "\<not> truthy (JObj []) \<and> \<not> truthy JNull \<and> \<not> truthy (JBool False) \<and> \<not> truthy (JInt 0) \<and>
   returned (handle_call_tool None (\<lambda>call. PostReturns \<lparr> status_code = 200, body = Some (JObj []) \<rparr>)
      ''search'' (Some [''query'' \<mapsto> JStr ''q'', ''url'' \<mapsto> JStr ''http://x''])) =
     Inr (text_result ''Failed to retrieve search results'') \<and>
   returned (handle_call_tool None (\<lambda>call. PostReturns \<lparr> status_code = 200, body = Some (JObj []) \<rparr>)
      ''news'' (Some [''query'' \<mapsto> JStr ''q'', ''url'' \<mapsto> JStr ''http://x''])) =
     Inr (text_result ''Failed to retrieve news results'') \<and>
   returned (handle_call_tool None (\<lambda>call. PostReturns \<lparr> status_code = 200, body = Some (JObj []) \<rparr>)
      ''crawl'' (Some [''query'' \<mapsto> JStr ''q'', ''url'' \<mapsto> JStr ''http://x''])) =
     Inr (text_result ''Failed to crawl URL'')"
  using falsy_body_is_failure
          [of "\<lambda>call. PostReturns \<lparr> status_code = 200, body = Some (JObj []) \<rparr>"
              "[''query'' \<mapsto> JStr ''q'', ''url'' \<mapsto> JStr ''http://x'']" None]
  by (simp add: is_success_def)

subsection \<open>Dispatch on the tool name\<close>

text \<open>
  Claim C2, as the code has it. The handler knows four names: besides search, news and
  crawl it still dispatches \<^verbatim>\<open>sitemap\<close>, which its docstring lists as supported. For
  every other name and every mapping of arguments it raises
  \<^verbatim>\<open>ValueError("Unknown tool: <name>")\<close>, returns no content and issues no call.
\<close>

theorem unknown_tool_raises:
  assumes "name \<notin> {''search'', ''news'', ''crawl'', ''sitemap''}"
  shows "handle_call_tool API_KEY client name (Some args) =
           \<lparr> returned = Inl (ValueError (''Unknown tool: '' @ name)), posts = [] \<rparr>"
  using assms by (simp add: handle_call_tool_def)

theorem unknown_tool_raises_witness:
  "handle_call_tool None (\<lambda>call. PostRaises NetworkError) ''unknown_tool'' (Some Map.empty) =
     \<lparr> returned = Inl (ValueError ''Unknown tool: unknown_tool''), posts = [] \<rparr>"
  using unknown_tool_raises [of "''unknown_tool''" None "\<lambda>call. PostRaises NetworkError" Map.empty]
  by simp

text \<open>
  The name \<^verbatim>\<open>sitemap\<close> is outside the three catalogued names, yet with an empty
  mapping the handler returns an ordinary failure text and raises nothing.
\<close>

theorem sitemap_is_dispatched:
  "''sitemap'' \<notin> {''search'', ''news'', ''crawl''} \<and>
   handle_call_tool None (\<lambda>call. PostRaises NetworkError) ''sitemap'' (Some Map.empty) =
     \<lparr> returned = Inr (text_result ''URL is required''), posts = [] \<rparr>"
  by (simp add: handle_call_tool_def)

subsection \<open>Required fields\<close>

text \<open>
  Claim C3. For each of the names search, news and crawl: when the arguments are absent,
  or a field that the catalogue requires for the tool is missing from them, the handler
  returns a failure text and issues no upstream call.
\<close>

theorem missing_required_field_no_io:
  assumes "name \<in> {''search'', ''news'', ''crawl''}"
    and "arguments = None \<or>
         (\<exists>args f. arguments = Some args \<and> f \<in> set (required_of name) \<and> f \<notin> dom args)"
  shows "handle_call_tool API_KEY client name arguments =
           \<lparr> returned = Inr (text_result
                (if arguments = None then ''No arguments provided''
                 else if name = ''search'' then ''Search query is required''
                 else if name = ''news'' then ''News search query is required''
                 else ''URL is required'')),
             posts = [] \<rparr>"
  using assms by (auto simp: required_of_known handle_call_tool_def domIff)

text \<open>The theorem at crawl with a mapping that holds only \<^verbatim>\<open>query\<close>, and at no arguments.\<close>

theorem missing_required_field_no_io_witness:
  "handle_call_tool None (\<lambda>call. PostRaises NetworkError) ''crawl''
     (Some [''query'' \<mapsto> JStr ''q'']) =
     \<lparr> returned = Inr (text_result ''URL is required''), posts = [] \<rparr> \<and>
   handle_call_tool None (\<lambda>call. PostRaises NetworkError) ''search'' None =
     \<lparr> returned = Inr (text_result ''No arguments provided''), posts = [] \<rparr>"
proof -
  have "''url'' \<in> set (required_of ''crawl'') \<and> ''url'' \<notin> dom [''query'' \<mapsto> JStr ''q'']"
    by (simp add: required_of_known)
  then have "\<exists>args f. Some [''query'' \<mapsto> JStr ''q''] = Some args \<and>
               f \<in> set (required_of ''crawl'') \<and> f \<notin> dom args"
    by blast
  then show ?thesis
    using missing_required_field_no_io
            [of "''crawl''" "Some [''query'' \<mapsto> JStr ''q'']" None "\<lambda>call. PostRaises NetworkError"]
          missing_required_field_no_io
            [of "''search''" None None "\<lambda>call. PostRaises NetworkError"]
    by simp
qed

text \<open>
  Claim C6. For every mapping without the key \<^verbatim>\<open>query\<close>, search returns the text
  \<^verbatim>\<open>Search query is required\<close> and news returns \<^verbatim>\<open>News search query is required\<close>,
  and neither issues an upstream call.
\<close>

theorem missing_query_rejected:
  assumes "''query'' \<notin> dom m"
  shows "handle_call_tool API_KEY client ''search'' (Some m) =
           \<lparr> returned = Inr (text_result ''Search query is required''), posts = [] \<rparr> \<and>
         handle_call_tool API_KEY client ''news'' (Some m) =
           \<lparr> returned = Inr (text_result ''News search query is required''), posts = [] \<rparr>"
  using assms by (simp add: handle_call_tool_def domIff)

theorem missing_query_rejected_witness:
  "handle_call_tool None (\<lambda>call. PostRaises NetworkError) ''search'' (Some Map.empty) =
     \<lparr> returned = Inr (text_result ''Search query is required''), posts = [] \<rparr> \<and>
   handle_call_tool None (\<lambda>call. PostRaises NetworkError) ''news'' (Some Map.empty) =
     \<lparr> returned = Inr (text_result ''News search query is required''), posts = [] \<rparr>"
  using missing_query_rejected [of Map.empty None "\<lambda>call. PostRaises NetworkError"]
  by simp

subsection \<open>Requests and results\<close>

text \<open>
  Claim C7. For every query string \<open>q\<close>, the call of search with the mapping
  \<^verbatim>\<open>{"query": q}\<close> issues one upstream call whose body has exactly the fields
  \<^verbatim>\<open>query\<close> = \<open>q\<close>, \<^verbatim>\<open>max_results\<close> = 10 and \<^verbatim>\<open>search_service\<close> =
  \<^verbatim>\<open>"google"\<close>, whatever the upstream answers.
\<close>

theorem search_defaults_filled:
  "map post_json (posts (handle_call_tool API_KEY client ''search'' (Some [''query'' \<mapsto> JStr q]))) =
     [[(''query'', JStr q), (''max_results'', JInt 10), (''search_service'', JStr ''google'')]]"
  by (simp add: search_unfold make_search_request_posts Let_def dict_get_def upstream_call_def)

theorem search_defaults_filled_witness:
  "map post_json (posts (handle_call_tool None (\<lambda>call. PostRaises NetworkError) ''search''
     (Some [''query'' \<mapsto> JStr ''q'']))) =
     [[(''query'', JStr ''q''), (''max_results'', JInt 10), (''search_service'', JStr ''google'')]]"
  using search_defaults_filled [of None "\<lambda>call. PostRaises NetworkError" "''q''"]
  by simp

text \<open>
  Claim C10. For search and news, called with a mapping that holds \<^verbatim>\<open>query\<close>: the
  body of the upstream call carries the value of \<^verbatim>\<open>max_results\<close> and of
  \<^verbatim>\<open>search_service\<close> exactly as the caller supplied it, of whatever type and
  magnitude (the default stands in only where the key is absent). Nothing compares
  \<^verbatim>\<open>max_results\<close> with the bounds 1 and 50 of the schema.
\<close>

theorem optional_fields_forwarded:
  assumes "name \<in> {''search'', ''news''}"
    and "m ''query'' = Some q"
  shows "map post_json (posts (handle_call_tool API_KEY client name (Some m))) =
           [[(''query'', q),
             (''max_results'', case m ''max_results'' of None \<Rightarrow> JInt 10 | Some v \<Rightarrow> v),
             (''search_service'', case m ''search_service'' of None \<Rightarrow> JStr ''google'' | Some v \<Rightarrow> v)]]"
  using assms
  by (auto simp: search_unfold news_unfold make_search_request_posts Let_def dict_get_def
        upstream_call_def)

text \<open>
  The theorem at news with \<^verbatim>\<open>max_results\<close> = 100000, above the advertised maximum,
  and a list where the schema asks for a string.
\<close>

theorem optional_fields_forwarded_witness:
  "map post_json (posts (handle_call_tool None (\<lambda>call. PostRaises NetworkError) ''news''
     (Some [''query'' \<mapsto> JStr ''q'', ''max_results'' \<mapsto> JInt 100000,
            ''search_service'' \<mapsto> JList [JBool True]]))) =
     [[(''query'', JStr ''q''), (''max_results'', JInt 100000),
       (''search_service'', JList [JBool True])]]"
  using optional_fields_forwarded
          [of "''news''"
              "[''query'' \<mapsto> JStr ''q'', ''max_results'' \<mapsto> JInt 100000,
                ''search_service'' \<mapsto> JList [JBool True]]"
              "JStr ''q''" None "\<lambda>call. PostRaises NetworkError"]
  by simp

text \<open>
  Claim C5. For every url \<open>u\<close>, the call of crawl with the mapping \<^verbatim>\<open>{"url": u}\<close>,
  when the upstream answers with a success status and a JSON object whose field
  \<^verbatim>\<open>results\<close> is \<open>v\<close>, returns one text item whose text is \<^verbatim>\<open>json.dumps(v)\<close>.
\<close>

theorem crawl_success_payload:
  assumes up: "\<And>call. \<exists>r kvs. client call = PostReturns r \<and> is_success r \<and>
                  body r = Some (JObj kvs) \<and> map_of kvs ''results'' = Some v"
  shows "returned (handle_call_tool API_KEY client ''crawl'' (Some [''url'' \<mapsto> JStr u])) =
           Inr (text_result (json_dumps v))"
proof -
  from up [of "upstream_call API_KEY ''/crawl'' [(''url'', JStr u)]"]
  obtain r kvs where r: "client (upstream_call API_KEY ''/crawl'' [(''url'', JStr u)]) = PostReturns r"
      "is_success r" "body r = Some (JObj kvs)" "map_of kvs ''results'' = Some v"
    by blast
  from r(4) have "kvs \<noteq> []"
    by auto
  with r show ?thesis
    by (simp add: crawl_unfold make_search_request_eq Let_def)
qed

text \<open>
  The theorem at the body \<^verbatim>\<open>{"results": ["a", "b"]}\<close>: the text returned is
  \<^verbatim>\<open>["a", "b"]\<close>, with the space that Python's default separator puts after the comma.
\<close>

theorem crawl_success_payload_witness:
  \<open>returned (handle_call_tool None
      (\<lambda>call. PostReturns \<lparr> status_code = 200,
                             body = Some (JObj [(''results'', JList [JStr ''a'', JStr ''b''])]) \<rparr>)
      ''crawl'' (Some [''url'' \<mapsto> JStr ''http://x''])) = Inr (text_result ''["a", "b"]'')\<close>
  using crawl_success_payload
          [of "\<lambda>call. PostReturns \<lparr> status_code = 200,
                  body = Some (JObj [(''results'', JList [JStr ''a'', JStr ''b''])]) \<rparr>"
              "JList [JStr ''a'', JStr ''b'']" None "''http://x''"]
  by (simp add: is_success_def encode_basestring_ascii_def escape_char_def)

subsection \<open>The catalogue\<close>

text \<open>
  Claim C8. \<^verbatim>\<open>handle_list_tools\<close> takes no input and reads no state: it is a constant,
  so every call yields the same value and none fails. It lists exactly three descriptors,
  in the order search, news, crawl, and their required fields are \<^verbatim>\<open>query\<close>,
  \<^verbatim>\<open>query\<close> and \<^verbatim>\<open>url\<close>.
\<close>

theorem list_tools_catalogue:
  "length handle_list_tools = 3 \<and>
   map tool_name handle_list_tools = [''search'', ''news'', ''crawl''] \<and>
   map (\<lambda>t. set (required_fields t)) handle_list_tools = [{''query''}, {''query''}, {''url''}]"
  by (simp add: handle_list_tools_def required_fields_def)

end
